theory Spec2Isabelle
  imports Main
begin

section \<open>NewsTool: cached search with fallback, and answer synthesis\<close>

text \<open>
  A shallow embedding of \<^verbatim>\<open>src/agent_system/tools/news_tool.py\<close>. The tool talks to
  three outside services (two search endpoints through \<^verbatim>\<open>requests\<close>, the Groq
  completion service) and to an on-disk cache (\<^verbatim>\<open>diskcache.Cache\<close>). The outside
  services are oracles of an environment \<open>env\<close>; everything the tool mutates or that we
  count is a field of the record \<open>world\<close>; every Python exception is a value.
\<close>

subsection \<open>Values decoded from JSON\<close>

text \<open>
  What \<^verbatim>\<open>response.json()\<close> yields. A number keeps its literal: the tool copies numbers
  and never inspects them. An object is the decoded dict, as its items in order.
\<close>

datatype json =
    JNull
  | JBool bool
  | JNumber string
  | JString string
  | JArray "json list"
  | JObject "(string \<times> json) list"

subsection \<open>Exceptions\<close>

text \<open>
  The subclasses of Python's \<^verbatim>\<open>Exception\<close> that the modelled code can meet. The first
  four are subclasses of \<^verbatim>\<open>requests.RequestException\<close>: a connection failure, a timeout,
  the \<^verbatim>\<open>HTTPError\<close> of \<^verbatim>\<open>raise_for_status\<close>, and the
  \<^verbatim>\<open>requests.exceptions.JSONDecodeError\<close> that \<^verbatim>\<open>response.json()\<close> raises on a body
  that is not JSON (requests 2.27 and later; older versions raise a plain \<open>ValueError\<close>).
  \<open>APIError\<close> stands for any error of the Groq client.
\<close>

datatype exception =
    ConnectionError
  | Timeout
  | HTTPError
  | JSONDecodeError
  | ValueError
  | KeyError string
  | TypeError
  | AttributeError
  | IndexError
  | APIError

fun is_RequestException :: "exception \<Rightarrow> bool" where
  "is_RequestException ConnectionError = True"
| "is_RequestException Timeout = True"
| "is_RequestException HTTPError = True"
| "is_RequestException JSONDecodeError = True"
| "is_RequestException ValueError = False"
| "is_RequestException (KeyError k) = False"
| "is_RequestException TypeError = False"
| "is_RequestException AttributeError = False"
| "is_RequestException IndexError = False"
| "is_RequestException APIError = False"

text \<open>Sequencing of steps that may raise: the first exception ends the block.\<close>

fun and_then :: "exception + 'a \<Rightarrow> ('a \<Rightarrow> exception + 'b) \<Rightarrow> exception + 'b" where
  "and_then (Inl e) f = Inl e"
| "and_then (Inr x) f = f x"

text \<open>A list comprehension whose element expression may raise.\<close>

fun comprehension :: "('a \<Rightarrow> exception + 'b) \<Rightarrow> 'a list \<Rightarrow> exception + 'b list" where
  "comprehension f [] = Inr []"
| "comprehension f (x # xs) =
     and_then (f x) (\<lambda>y. and_then (comprehension f xs) (\<lambda>ys. Inr (y # ys)))"

subsection \<open>Python operations on decoded values\<close>

text \<open>\<^verbatim>\<open>obj.get(key, default)\<close>: only a dict has the method.\<close>

fun py_get :: "json \<Rightarrow> string \<Rightarrow> json \<Rightarrow> exception + json" where
  "py_get (JObject kvs) k d = Inr (case map_of kvs k of None \<Rightarrow> d | Some v \<Rightarrow> v)"
| "py_get JNull k d = Inl AttributeError"
| "py_get (JBool b) k d = Inl AttributeError"
| "py_get (JNumber n) k d = Inl AttributeError"
| "py_get (JString s) k d = Inl AttributeError"
| "py_get (JArray xs) k d = Inl AttributeError"

text \<open>
  \<^verbatim>\<open>obj[key]\<close> with a string key: \<open>KeyError\<close> on a dict without the key, \<open>TypeError\<close>
  on a list, a string, a number, a boolean or \<open>None\<close>.
\<close>

fun py_getitem :: "json \<Rightarrow> string \<Rightarrow> exception + json" where
  "py_getitem (JObject kvs) k = (case map_of kvs k of None \<Rightarrow> Inl (KeyError k) | Some v \<Rightarrow> Inr v)"
| "py_getitem JNull k = Inl TypeError"
| "py_getitem (JBool b) k = Inl TypeError"
| "py_getitem (JNumber n) k = Inl TypeError"
| "py_getitem (JString s) k = Inl TypeError"
| "py_getitem (JArray xs) k = Inl TypeError"

text \<open>
  \<^verbatim>\<open>for x in obj\<close>: a list yields its elements, a dict its keys, a string its
  characters; the other values are not iterable.
\<close>

fun py_iter :: "json \<Rightarrow> exception + json list" where
  "py_iter (JArray xs) = Inr xs"
| "py_iter (JObject kvs) = Inr (map (\<lambda>kv. JString (fst kv)) kvs)"
| "py_iter (JString s) = Inr (map (\<lambda>c. JString [c]) s)"
| "py_iter JNull = Inl TypeError"
| "py_iter (JBool b) = Inl TypeError"
| "py_iter (JNumber n) = Inl TypeError"

text \<open>
  \<^verbatim>\<open>str.strip()\<close> on the ASCII range (tab to carriage return, the four separators
  \<open>0x1c\<close> to \<open>0x1f\<close>, space); \<^verbatim>\<open>x.strip()\<close> on a value that is not a string raises
  \<open>AttributeError\<close>.
\<close>

definition py_isspace :: "char \<Rightarrow> bool" where
  "py_isspace c =
     (let n = (of_char c :: nat) in (9 \<le> n \<and> n \<le> 13) \<or> (28 \<le> n \<and> n \<le> 31) \<or> n = 32)"

definition strip :: "string \<Rightarrow> string" where
  "strip s = rev (dropWhile py_isspace (rev (dropWhile py_isspace s)))"

fun py_strip :: "json \<Rightarrow> exception + string" where
  "py_strip (JString s) = Inr (strip s)"
| "py_strip JNull = Inl AttributeError"
| "py_strip (JBool b) = Inl AttributeError"
| "py_strip (JNumber n) = Inl AttributeError"
| "py_strip (JArray xs) = Inl AttributeError"
| "py_strip (JObject kvs) = Inl AttributeError"

text \<open>\<^verbatim>\<open>sep.join(parts)\<close>.\<close>

fun join :: "string \<Rightarrow> string list \<Rightarrow> string" where
  "join sep [] = []"
| "join sep [x] = x"
| "join sep (x # y # ys) = x @ sep @ join sep (y # ys)"

definition nl :: string where
  "nl = [CHR 0x0A]"

subsection \<open>Search results, HTTP responses, completions\<close>

text \<open>The dict \<^verbatim>\<open>{'name': ..., 'url': ..., 'snippet': ...}\<close> both adapters build.\<close>

record search_result =
  name :: json
  url :: json
  snippet :: json

type_synonym results = "search_result list"

text \<open>
  A response of \<^verbatim>\<open>requests.get\<close>: its status code and what \<^verbatim>\<open>response.json()\<close> does
  (raises, or returns the decoded body).
\<close>

datatype response = Response (status_code: nat) (json_body: "exception + json")

text \<open>\<^verbatim>\<open>response.raise_for_status()\<close> raises \<open>HTTPError\<close> on a 4xx or 5xx status.\<close>

definition raise_for_status :: "response \<Rightarrow> exception + unit" where
  "raise_for_status r =
     (if 400 \<le> status_code r \<and> status_code r < 600 then Inl HTTPError else Inr ())"

text \<open>
  \<^verbatim>\<open>completion.choices[0].message\<close> is a dict, or an object that has a \<open>content\<close>
  attribute (\<open>Some\<close>, the value possibly \<open>None\<close>, here \<open>JNull\<close>) or has none.
\<close>

datatype message = DictMessage "(string \<times> json) list" | ObjectMessage "json option"

type_synonym completion = "message list"

subsection \<open>The environment and the state\<close>

text \<open>
  The outside world. \<open>bing_get env n q\<close> is what the \<open>n\<close>-th call of \<^verbatim>\<open>requests.get\<close>
  on the Bing endpoint does for query \<open>q\<close> (raises, or returns a response), so any
  sequence of behaviours is an environment; likewise \<open>google_get\<close>, and \<open>llm_create\<close>
  for \<^verbatim>\<open>client.chat.completions.create\<close> on a list of (role, content) messages.
  \<open>py_str\<close> is Python's \<^verbatim>\<open>str()\<close> as the f-string applies it to a decoded value.
\<close>

record env =
  bing_get :: "nat \<Rightarrow> string \<Rightarrow> exception + response"
  google_get :: "nat \<Rightarrow> string \<Rightarrow> exception + response"
  llm_create :: "nat \<Rightarrow> (string \<times> string) list \<Rightarrow> exception + completion"
  py_str :: "json \<Rightarrow> string"

text \<open>
  The state: the clock \<open>now\<close> (\<^verbatim>\<open>time.time()\<close>, in seconds), the cache (key to value
  and expiry time), and three counters that the source does not have: the number of
  calls of \<open>search_bing\<close>, of \<open>search_google\<close> and of the completion service so far.
  The clock does not move during one call of the tool; a caller moves it between calls.
\<close>

type_synonym cache_table = "string \<rightharpoonup> (results \<times> nat)"

record world =
  now :: nat
  cache :: cache_table
  bing_calls :: nat
  google_calls :: nat
  llm_calls :: nat

subsection \<open>ContentCache\<close>

text \<open>
  Modelled from the spec: the cache class itself (\<^verbatim>\<open>diskcache.Cache\<close>, imported by
  the tool) is not under src/. Section 4.1: \<open>get(key)\<close> returns an optional value,
  \<open>set(key, value, ttl)\<close> always overwrites, and a lookup of an expired entry behaves
  as a miss without raising. An entry is unexpired while the clock is before its expiry
  time, which \<open>set\<close> fixes at the time of the call plus the ttl. \<open>cache_contains\<close> is
  \<^verbatim>\<open>key in cache\<close>, \<open>cache_getitem\<close> is \<^verbatim>\<open>cache[key]\<close>.
\<close>

definition cache_get :: "cache_table \<Rightarrow> nat \<Rightarrow> string \<Rightarrow> results option" where
  "cache_get c t key =
     (case c key of None \<Rightarrow> None | Some (v, expire_time) \<Rightarrow> if t < expire_time then Some v else None)"

definition cache_contains :: "cache_table \<Rightarrow> nat \<Rightarrow> string \<Rightarrow> bool" where
  "cache_contains c t key = (case cache_get c t key of None \<Rightarrow> False | Some v \<Rightarrow> True)"

definition cache_getitem :: "cache_table \<Rightarrow> nat \<Rightarrow> string \<Rightarrow> exception + results" where
  "cache_getitem c t key = (case cache_get c t key of None \<Rightarrow> Inl (KeyError key) | Some v \<Rightarrow> Inr v)"

definition cache_set :: "cache_table \<Rightarrow> nat \<Rightarrow> string \<Rightarrow> results \<Rightarrow> nat \<Rightarrow> cache_table" where
  "cache_set c t key v expire = c(key \<mapsto> (v, t + expire))"

subsection \<open>NewsTool\<close>

definition max_retries :: nat where
  "max_retries = 3"

type_synonym search_function = "string \<Rightarrow> world \<Rightarrow> (exception + results) \<times> world"

text \<open>The \<^verbatim>\<open>expire\<close> argument of the one \<^verbatim>\<open>cache.set\<close> call, in seconds.\<close>

definition one_week :: nat where
  "one_week = 7 * 24 * 60 * 60"

text \<open>\<^verbatim>\<open>cached_search(query, search_function)\<close>.\<close>

definition cached_search :: "string \<Rightarrow> search_function \<Rightarrow> world \<Rightarrow> (exception + results) \<times> world" where
  "cached_search query search_function w =
     (if cache_contains (cache w) (now w) query
      then (cache_getitem (cache w) (now w) query, w)
      else (case search_function query w of
              (Inl e, w') \<Rightarrow> (Inl e, w')
            | (Inr rs, w') \<Rightarrow>
                (Inr rs, w'\<lparr>cache := cache_set (cache w') (now w') query rs one_week\<rparr>)))"

text \<open>The body of one list element in \<open>search_bing\<close>, and of one in \<open>search_google\<close>.\<close>

definition bing_item :: "json \<Rightarrow> exception + search_result" where
  "bing_item result =
     and_then (py_getitem result ''name'') (\<lambda>n.
     and_then (py_getitem result ''url'') (\<lambda>u.
     and_then (py_getitem result ''snippet'') (\<lambda>s.
     Inr \<lparr>name = n, url = u, snippet = s\<rparr>)))"

definition google_item :: "json \<Rightarrow> exception + search_result" where
  "google_item item =
     and_then (py_getitem item ''title'') (\<lambda>n.
     and_then (py_getitem item ''link'') (\<lambda>u.
     and_then (py_getitem item ''snippet'') (\<lambda>s.
     Inr \<lparr>name = n, url = u, snippet = s\<rparr>)))"

text \<open>The \<^verbatim>\<open>try\<close> blocks of the two adapters, from the outcome of \<^verbatim>\<open>requests.get\<close> on.\<close>

definition bing_try :: "exception + response \<Rightarrow> exception + results" where
  "bing_try got =
     and_then got (\<lambda>response.
     and_then (raise_for_status response) (\<lambda>_.
     and_then (json_body response) (\<lambda>body.
     and_then (py_get body ''webPages'' (JObject [])) (\<lambda>pages.
     and_then (py_get pages ''value'' (JArray [])) (\<lambda>v.
     and_then (py_iter v) (\<lambda>items.
     comprehension bing_item items))))))"

definition google_try :: "exception + response \<Rightarrow> exception + results" where
  "google_try got =
     and_then got (\<lambda>response.
     and_then (raise_for_status response) (\<lambda>_.
     and_then (json_body response) (\<lambda>body.
     and_then (py_get body ''items'' (JArray [])) (\<lambda>v.
     and_then (py_iter v) (\<lambda>items.
     comprehension google_item items)))))"

text \<open>
  \<^verbatim>\<open>except requests.RequestException\<close> turns exactly the request exceptions into the
  empty list; any other exception leaves the adapter.
\<close>

definition search_bing :: "env \<Rightarrow> search_function" where
  "search_bing env query w =
     (case bing_try (bing_get env (bing_calls w) query) of
        Inl e \<Rightarrow> (if is_RequestException e then Inr [] else Inl e, w\<lparr>bing_calls := Suc (bing_calls w)\<rparr>)
      | Inr rs \<Rightarrow> (Inr rs, w\<lparr>bing_calls := Suc (bing_calls w)\<rparr>))"

definition search_google :: "env \<Rightarrow> search_function" where
  "search_google env query w =
     (case google_try (google_get env (google_calls w) query) of
        Inl e \<Rightarrow> (if is_RequestException e then Inr [] else Inl e, w\<lparr>google_calls := Suc (google_calls w)\<rparr>)
      | Inr rs \<Rightarrow> (Inr rs, w\<lparr>google_calls := Suc (google_calls w)\<rparr>))"

text \<open>
  \<open>search\<close>: the inner loop \<^verbatim>\<open>for _ in range(self.max_retries)\<close> and the outer loop
  \<^verbatim>\<open>for api in apis\<close>. \<open>Some rs\<close> is the \<^verbatim>\<open>return results\<close> inside the loops,
  \<open>None\<close> a loop that ran to its end.
\<close>

fun search_retries :: "nat \<Rightarrow> search_function \<Rightarrow> string \<Rightarrow> world \<Rightarrow> (exception + results option) \<times> world" where
  "search_retries 0 api query w = (Inr None, w)"
| "search_retries (Suc n) api query w =
     (case api query w of
        (Inl e, w') \<Rightarrow> (Inl e, w')
      | (Inr rs, w') \<Rightarrow> if rs \<noteq> [] then (Inr (Some rs), w') else search_retries n api query w')"

fun search_apis :: "search_function list \<Rightarrow> string \<Rightarrow> world \<Rightarrow> (exception + results option) \<times> world" where
  "search_apis [] query w = (Inr None, w)"
| "search_apis (api # apis) query w =
     (case search_retries max_retries api query w of
        (Inl e, w') \<Rightarrow> (Inl e, w')
      | (Inr (Some rs), w') \<Rightarrow> (Inr (Some rs), w')
      | (Inr None, w') \<Rightarrow> search_apis apis query w')"

definition apis :: "env \<Rightarrow> search_function list" where
  "apis env = [\<lambda>q. cached_search q (search_bing env), \<lambda>q. cached_search q (search_google env)]"

definition search :: "env \<Rightarrow> string \<Rightarrow> world \<Rightarrow> (exception + results) \<times> world" where
  "search env query w =
     (case search_apis (apis env) query w of
        (Inl e, w') \<Rightarrow> (Inl e, w')
      | (Inr (Some rs), w') \<Rightarrow> (Inr rs, w')
      | (Inr None, w') \<Rightarrow> (Inr [], w'))"

text \<open>\<open>use\<close>: the prompt, the completion call, the parsing of the reply.\<close>

definition source_block :: "env \<Rightarrow> search_result \<Rightarrow> string" where
  "source_block env result =
     ''Source:'' @ nl @ ''Title: '' @ py_str env (name result) @ nl @
     ''URL: '' @ py_str env (url result) @ nl @
     ''Content: '' @ py_str env (snippet result)"

definition prompt :: "env \<Rightarrow> results \<Rightarrow> string \<Rightarrow> string" where
  "prompt env rs question =
     ''Use the following sources to answer the question:'' @ nl @ nl @
     join (nl @ nl) (map (source_block env) rs) @ nl @ nl @
     ''Question: '' @ question @ nl @ nl @ ''Answer:''"

definition messages :: "env \<Rightarrow> results \<Rightarrow> string \<Rightarrow> (string \<times> string) list" where
  "messages env rs question =
     [(''system'', ''You are an AI assistant designed to answer questions based on provided context.''),
      (''user'', prompt env rs question)]"

definition parse_completion :: "completion \<Rightarrow> exception + string" where
  "parse_completion choices =
     (case choices of
        [] \<Rightarrow> Inl IndexError
      | DictMessage kvs # _ \<Rightarrow>
          (case map_of kvs ''content'' of
             Some c \<Rightarrow> py_strip c
           | None \<Rightarrow> Inr ''Unable to parse the response format.'')
      | ObjectMessage (Some c) # _ \<Rightarrow> py_strip c
      | ObjectMessage None # _ \<Rightarrow> Inr ''Unable to parse the response format.'')"

text \<open>The \<^verbatim>\<open>try\<close> block of \<open>use\<close>.\<close>

definition use_try :: "env \<Rightarrow> string \<Rightarrow> world \<Rightarrow> (exception + string) \<times> world" where
  "use_try env question w =
     (case search env question w of
        (Inl e, w1) \<Rightarrow> (Inl e, w1)
      | (Inr rs, w1) \<Rightarrow>
          (and_then (llm_create env (llm_calls w1) (messages env rs question)) parse_completion,
           w1\<lparr>llm_calls := Suc (llm_calls w1)\<rparr>))"

text \<open>
  \<open>use\<close> on its positional arguments. \<^verbatim>\<open>except Exception\<close> catches every exception of
  the model; the result keeps the sum type so that "does not raise" is a statement.
\<close>

definition use :: "env \<Rightarrow> string list \<Rightarrow> world \<Rightarrow> (exception + string) \<times> world" where
  "use env args w =
     (case args of
        [] \<Rightarrow> (Inr ''Error: A question is required.'', w)
      | question # _ \<Rightarrow>
          (case use_try env question w of
             (Inl e, w') \<Rightarrow> (Inr ''Unable to generate an answer at this time.'', w')
           | (Inr answer, w') \<Rightarrow> (Inr answer, w')))"

subsection \<open>Concrete environments and states\<close>

text \<open>
  The inputs at which the theorems below are evaluated. \<open>str_of_string\<close> is
  \<^verbatim>\<open>str()\<close> on the only values these inputs contain, strings; the other cases are
  never reached there.
\<close>

fun str_of_string :: "json \<Rightarrow> string" where
  "str_of_string (JString s) = s"
| "str_of_string JNull = []"
| "str_of_string (JBool b) = []"
| "str_of_string (JNumber n) = []"
| "str_of_string (JArray xs) = []"
| "str_of_string (JObject kvs) = []"

definition result_T :: search_result where
  "result_T = \<lparr>name = JString ''T'', url = JString ''u'', snippet = JString ''s''\<rparr>"

definition result_C :: search_result where
  "result_C = \<lparr>name = JString ''C'', url = JString ''c'', snippet = JString ''cached''\<rparr>"

definition bing_body_T :: json where
  "bing_body_T =
     JObject [(''webPages'', JObject [(''value'', JArray
       [JObject [(''name'', JString ''T''), (''url'', JString ''u''), (''snippet'', JString ''s'')]])])]"

definition google_body_T :: json where
  "google_body_T =
     JObject [(''items'', JArray
       [JObject [(''title'', JString ''T''), (''link'', JString ''u''), (''snippet'', JString ''s'')]])]"

text \<open>Bing answers 200 with a body that has no \<open>webPages\<close>; Google answers with one item.\<close>

definition env_fallback :: env where
  "env_fallback =
     \<lparr>bing_get = (\<lambda>n q. Inr (Response 200 (Inr (JObject [])))),
      google_get = (\<lambda>n q. Inr (Response 200 (Inr google_body_T))),
      llm_create = (\<lambda>n ms. Inr [ObjectMessage (Some (JString ''ok''))]),
      py_str = str_of_string\<rparr>"

text \<open>Bing answers with one item.\<close>

definition env_bing :: env where
  "env_bing =
     \<lparr>bing_get = (\<lambda>n q. Inr (Response 200 (Inr bing_body_T))),
      google_get = (\<lambda>n q. Inr (Response 200 (Inr google_body_T))),
      llm_create = (\<lambda>n ms. Inr [ObjectMessage (Some (JString ''ok''))]),
      py_str = str_of_string\<rparr>"

text \<open>
  Every service is down: the connection to Bing fails, Google answers 503 with a body
  that is not JSON, the completion service raises.
\<close>

definition env_down :: env where
  "env_down =
     \<lparr>bing_get = (\<lambda>n q. Inl ConnectionError),
      google_get = (\<lambda>n q. Inr (Response 503 (Inl JSONDecodeError))),
      llm_create = (\<lambda>n ms. Inl APIError),
      py_str = str_of_string\<rparr>"

text \<open>Both endpoints answer 200 with one item that lacks its title field.\<close>

definition env_malformed :: env where
  "env_malformed =
     \<lparr>bing_get = (\<lambda>n q. Inr (Response 200 (Inr
        (JObject [(''webPages'', JObject [(''value'', JArray [JObject [(''url'', JString ''u'')]])])])))),
      google_get = (\<lambda>n q. Inr (Response 200 (Inr
        (JObject [(''items'', JArray [JObject [(''link'', JString ''u'')]])])))),
      llm_create = (\<lambda>n ms. Inr [ObjectMessage (Some (JString ''ok''))]),
      py_str = str_of_string\<rparr>"

text \<open>A fresh tool at time 0, and one whose cache holds key \<open>y\<close> until time 100.\<close>

definition w0 :: world where
  "w0 = \<lparr>now = 0, cache = Map.empty, bing_calls = 0, google_calls = 0, llm_calls = 0\<rparr>"

definition w_cached :: "nat \<Rightarrow> world" where
  "w_cached t =
     \<lparr>now = t, cache = [''y'' \<mapsto> ([result_C], 100)], bing_calls = 0, google_calls = 0, llm_calls = 0\<rparr>"

section \<open>Properties\<close>

subsection \<open>What one call changes\<close>

lemma one_week_seconds: "one_week = 604800"
  by (simp add: one_week_def)

lemma one_week_pos: "0 < one_week"
  by (simp add: one_week_def)

lemma snd_search_bing: "snd (search_bing env q w) = w\<lparr>bing_calls := Suc (bing_calls w)\<rparr>"
  by (simp add: search_bing_def split: sum.splits)

lemma snd_search_google: "snd (search_google env q w) = w\<lparr>google_calls := Suc (google_calls w)\<rparr>"
  by (simp add: search_google_def split: sum.splits)

lemma cache_contains_iff: "cache_contains c t q \<longleftrightarrow> (\<exists>v. cache_get c t q = Some v)"
  by (simp add: cache_contains_def split: option.splits)

lemma cache_get_Some_iff:
  "cache_get c t q = Some v \<longleftrightarrow> (\<exists>expire_time. c q = Some (v, expire_time) \<and> t < expire_time)"
  by (auto simp: cache_get_def split: option.splits)

lemma cache_get_after_set: "cache_get (cache_set c t q rs one_week) t q = Some rs"
  by (simp add: cache_get_def cache_set_def one_week_pos)

lemma cached_search_hit:
  "cache_get (cache w) (now w) q = Some v \<Longrightarrow> cached_search q f w = (Inr v, w)"
  by (simp add: cached_search_def cache_contains_def cache_getitem_def)

lemma cached_search_miss:
  "cache_get (cache w) (now w) q = None \<Longrightarrow>
   cached_search q f w =
     (case f q w of
        (Inl e, w') \<Rightarrow> (Inl e, w')
      | (Inr rs, w') \<Rightarrow> (Inr rs, w'\<lparr>cache := cache_set (cache w') (now w') q rs one_week\<rparr>))"
  by (simp add: cached_search_def cache_contains_def)

text \<open>A miss, spelled out for the first provider.\<close>

lemma cached_search_bing_miss:
  assumes "cache_get (cache w) (now w) q = None"
  shows "cached_search q (search_bing env) w =
     (case fst (search_bing env q w) of
        Inl e \<Rightarrow> (Inl e, w\<lparr>bing_calls := Suc (bing_calls w)\<rparr>)
      | Inr rs \<Rightarrow>
          (Inr rs, w\<lparr>bing_calls := Suc (bing_calls w),
                      cache := cache_set (cache w) (now w) q rs one_week\<rparr>))"
proof -
  obtain r w' where sb: "search_bing env q w = (r, w')"
    by (cases "search_bing env q w")
  have "w' = w\<lparr>bing_calls := Suc (bing_calls w)\<rparr>"
    using snd_search_bing [of env q w] sb by simp
  then show ?thesis
    using assms sb by (cases r) (simp_all add: cached_search_miss)
qed

subsection \<open>The loops of search on a cached key\<close>

lemma search_retries_hit:
  "cache_get (cache w) (now w) q = Some v \<Longrightarrow>
   search_retries n (\<lambda>q. cached_search q f) q w =
     (Inr (if v \<noteq> [] \<and> 0 < n then Some v else None), w)"
  by (induction n) (simp_all add: cached_search_hit)

lemma search_hit:
  "cache_get (cache w) (now w) q = Some v \<Longrightarrow> search env q w = (Inr v, w)"
  by (cases "v = []") (simp_all add: search_def apis_def search_retries_hit max_retries_def)

text \<open>
  Every attempt after the first finds the entry the first one stored, so the two loops
  collapse: \<open>search\<close> is one cached call of the first provider.
\<close>

lemma search_is_first_cached_search:
  "search env q w = cached_search q (search_bing env) w"
proof (cases "cache_get (cache w) (now w) q")
  case (Some v)
  then show ?thesis by (simp add: search_hit cached_search_hit)
next
  case None
  note miss = cached_search_bing_miss [OF None, of env]
  show ?thesis
  proof (cases "fst (search_bing env q w)")
    case (Inl e)
    then show ?thesis using miss
      by (simp add: search_def apis_def max_retries_def numeral_3_eq_3)
  next
    case (Inr rs)
    let ?w2 = "w\<lparr>bing_calls := Suc (bing_calls w),
                  cache := cache_set (cache w) (now w) q rs one_week\<rparr>"
    have cs: "cached_search q (search_bing env) w = (Inr rs, ?w2)"
      using miss Inr by simp
    have hit: "cache_get (cache ?w2) (now ?w2) q = Some rs"
      by (simp add: cache_get_after_set)
    show ?thesis
    proof (cases "rs = []")
      case True
      have "search_retries 2 (\<lambda>q. cached_search q (search_bing env)) q ?w2 = (Inr None, ?w2)"
        using search_retries_hit [OF hit] True by simp
      moreover
      have "search_retries 3 (\<lambda>q. cached_search q (search_google env)) q ?w2 = (Inr None, ?w2)"
        using search_retries_hit [OF hit] True by simp
      ultimately show ?thesis using cs True
        by (simp add: search_def apis_def max_retries_def numeral_3_eq_3 numeral_2_eq_2)
    next
      case False
      then show ?thesis using cs
        by (simp add: search_def apis_def max_retries_def numeral_3_eq_3)
    qed
  qed
qed

lemma search_miss:
  assumes "cache_get (cache w) (now w) q = None"
  shows "search env q w =
     (case fst (search_bing env q w) of
        Inl e \<Rightarrow> (Inl e, w\<lparr>bing_calls := Suc (bing_calls w)\<rparr>)
      | Inr rs \<Rightarrow>
          (Inr rs, w\<lparr>bing_calls := Suc (bing_calls w),
                      cache := cache_set (cache w) (now w) q rs one_week\<rparr>))"
  using cached_search_bing_miss [OF assms] by (simp add: search_is_first_cached_search)

subsection \<open>Evaluating the adapters\<close>

lemma bing_try_raises: "bing_try (Inl e) = Inl e"
  by (simp add: bing_try_def)

lemma bing_try_status:
  "400 \<le> st \<Longrightarrow> st < 600 \<Longrightarrow> bing_try (Inr (Response st b)) = Inl HTTPError"
  by (simp add: bing_try_def raise_for_status_def)

lemma bing_try_json_raises:
  "bing_try (Inr (Response st (Inl e))) = Inl (if 400 \<le> st \<and> st < 600 then HTTPError else e)"
  by (simp add: bing_try_def raise_for_status_def)

lemma google_try_raises: "google_try (Inl e) = Inl e"
  by (simp add: google_try_def)

lemma google_try_status:
  "400 \<le> st \<Longrightarrow> st < 600 \<Longrightarrow> google_try (Inr (Response st b)) = Inl HTTPError"
  by (simp add: google_try_def raise_for_status_def)

lemma google_try_json_raises:
  "google_try (Inr (Response st (Inl e))) = Inl (if 400 \<le> st \<and> st < 600 then HTTPError else e)"
  by (simp add: google_try_def raise_for_status_def)

lemma search_bing_env_fallback: "fst (search_bing env_fallback q w) = Inr []"
  by (simp add: search_bing_def env_fallback_def bing_try_def raise_for_status_def)

lemma search_google_env_fallback: "fst (search_google env_fallback q w) = Inr [result_T]"
  by (simp add: search_google_def env_fallback_def google_try_def raise_for_status_def
      google_body_T_def google_item_def result_T_def)

lemma search_bing_env_bing: "fst (search_bing env_bing q w) = Inr [result_T]"
  by (simp add: search_bing_def env_bing_def bing_try_def raise_for_status_def
      bing_body_T_def bing_item_def result_T_def)

lemma search_bing_env_down: "fst (search_bing env_down q w) = Inr []"
  by (simp add: search_bing_def env_down_def bing_try_def)

lemma search_bing_env_malformed: "fst (search_bing env_malformed q w) = Inl (KeyError ''name'')"
  by (simp add: search_bing_def env_malformed_def bing_try_def raise_for_status_def bing_item_def)

lemma search_google_env_malformed: "fst (search_google env_malformed q w) = Inl (KeyError ''title'')"
  by (simp add: search_google_def env_malformed_def google_try_def raise_for_status_def
      google_item_def)

lemma cache_get_w0: "cache_get (cache w0) (now w0) q = None"
  by (simp add: w0_def cache_get_def)

subsection \<open>Fallback to the second provider\<close>

text \<open>
  C1. The claim: when Bing returns no results on all three attempts and Google returns
  results on its first attempt, \<open>search\<close> returns Google's results, with \<open>search_bing\<close>
  called three times and \<open>search_google\<close> once. The code at that input: on a fresh tool,
  with Bing answering every request with an empty result set and Google ready to answer
  with the item T, \<open>search\<close> returns the empty list after one call of \<open>search_bing\<close> and
  no call of \<open>search_google\<close>. The first attempt stores the empty list under the query,
  and the five later attempts read it back.
\<close>

theorem search_fallback_not_reached:
  "fst (search env_fallback ''x'' w0) = Inr []
   \<and> bing_calls (snd (search env_fallback ''x'' w0)) = 1
   \<and> google_calls (snd (search env_fallback ''x'' w0)) = 0
   \<and> fst (search_bing env_fallback ''x'' (w0\<lparr>bing_calls := 0\<rparr>)) = Inr []
   \<and> fst (search_bing env_fallback ''x'' (w0\<lparr>bing_calls := 1\<rparr>)) = Inr []
   \<and> fst (search_bing env_fallback ''x'' (w0\<lparr>bing_calls := 2\<rparr>)) = Inr []
   \<and> fst (search_google env_fallback ''x'' (snd (search env_fallback ''x'' w0))) = Inr [result_T]"
  by (simp add: search_miss [OF cache_get_w0] search_bing_env_fallback
      search_google_env_fallback) (simp add: w0_def)

subsection \<open>The adapters and exceptions\<close>

text \<open>
  C2, as amended. For every query, when the HTTP call fails with a request exception
  (the call itself raises one, the status is 4xx or 5xx, or decoding the body raises
  one), \<open>search_bing\<close> and \<open>search_google\<close> return the empty list and do not raise.
\<close>

theorem adapters_catch_request_exceptions:
  assumes "is_RequestException e" and "400 \<le> st" and "st < 600"
  shows "(bing_get env (bing_calls w) q \<in> {Inl e, Inr (Response st b), Inr (Response st' (Inl e))}
            \<longrightarrow> fst (search_bing env q w) = Inr [])
       \<and> (google_get env (google_calls w) q \<in> {Inl e, Inr (Response st b), Inr (Response st' (Inl e))}
            \<longrightarrow> fst (search_google env q w) = Inr [])"
  using assms
  by (auto simp: search_bing_def search_google_def bing_try_raises bing_try_status
      bing_try_json_raises google_try_raises google_try_status google_try_json_raises)

theorem adapters_catch_request_exceptions_witness:
  "is_RequestException ConnectionError \<and> (400::nat) \<le> 503 \<and> (503::nat) < 600
   \<and> bing_get env_down (bing_calls w0) ''x''
        \<in> {Inl ConnectionError, Inr (Response 503 (Inl JSONDecodeError)),
           Inr (Response 200 (Inl ConnectionError))}
   \<and> fst (search_bing env_down ''x'' w0) = Inr []
   \<and> google_get env_down (google_calls w0) ''x''
        \<in> {Inl ConnectionError, Inr (Response 503 (Inl JSONDecodeError)),
           Inr (Response 200 (Inl ConnectionError))}
   \<and> fst (search_google env_down ''x'' w0) = Inr []"
  using adapters_catch_request_exceptions
    [of ConnectionError 503 env_down w0 "''x''" "Inl JSONDecodeError" 200]
  by (simp add: env_down_def)

text \<open>
  C2, the claim as stated fails: a response whose item lacks its title field makes each
  adapter raise \<open>KeyError\<close>, which is not a request exception.
\<close>

theorem adapters_raise_on_missing_field:
  "fst (search_bing env_malformed ''x'' w0) = Inl (KeyError ''name'')
   \<and> fst (search_google env_malformed ''x'' w0) = Inl (KeyError ''title'')"
  by (simp add: search_bing_env_malformed search_google_env_malformed)

subsection \<open>The argument check of use\<close>

text \<open>
  C3, as amended. Called with no positional argument, \<open>use\<close> returns the literal
  "Error: A question is required." and leaves the state as it was: no provider call, no
  completion call, no cache access.
\<close>

theorem use_without_argument:
  "use env [] w = (Inr ''Error: A question is required.'', w)"
  by (simp add: use_def)

text \<open>
  C3, the claim as stated fails: the empty string is an argument, so \<open>use\<close> searches
  for it and asks the completion service (one Bing call, one completion call here), and
  returns the completion.
\<close>

theorem use_empty_question_is_answered:
  "fst (use env_fallback [''''] w0) = Inr ''ok''
   \<and> fst (use env_fallback [''''] w0) \<noteq> Inr ''Error: A question is required.''
   \<and> bing_calls (snd (use env_fallback [''''] w0)) = 1
   \<and> llm_calls (snd (use env_fallback [''''] w0)) = 1"
  by (simp add: use_def use_try_def search_miss [OF cache_get_w0] search_bing_env_fallback)
     (simp add: env_fallback_def parse_completion_def strip_def py_isspace_def w0_def)

subsection \<open>What search leaves behind\<close>

lemma calls_after_search:
  "google_calls (snd (search env q w)) = google_calls w"
  "llm_calls (snd (search env q w)) = llm_calls w"
  "bing_calls (snd (search env q w)) =
     (if cache_contains (cache w) (now w) q then bing_calls w else Suc (bing_calls w))"
proof -
  show "google_calls (snd (search env q w)) = google_calls w"
    by (cases "cache_get (cache w) (now w) q")
       (simp_all add: search_miss search_hit split: sum.splits)
  show "llm_calls (snd (search env q w)) = llm_calls w"
    by (cases "cache_get (cache w) (now w) q")
       (simp_all add: search_miss search_hit split: sum.splits)
  show "bing_calls (snd (search env q w)) =
     (if cache_contains (cache w) (now w) q then bing_calls w else Suc (bing_calls w))"
    by (cases "cache_get (cache w) (now w) q")
       (simp_all add: search_miss search_hit cache_contains_iff split: sum.splits)
qed

lemma entry_after_search:
  assumes "fst (search env q w) = Inr rs"
  shows "cache_get (cache (snd (search env q w))) (now w) q = Some rs"
proof (cases "cache_get (cache w) (now w) q")
  case (Some v)
  then show ?thesis using assms by (simp add: search_hit)
next
  case None
  then show ?thesis using assms
    by (simp add: search_miss cache_get_after_set split: sum.splits)
qed

subsection \<open>The first provider's results win\<close>

text \<open>
  C4. For every query on which the first provider yields a non-empty result list, read
  from the cache or fetched by a fresh call of \<open>search_bing\<close>, \<open>search\<close> returns exactly
  that list, and \<open>search_google\<close> is not called.
\<close>

theorem search_first_provider_results:
  assumes "fst (cached_search q (search_bing env) w) = Inr rs" and "rs \<noteq> []"
  shows "fst (search env q w) = Inr rs \<and> google_calls (snd (search env q w)) = google_calls w"
  using assms by (simp add: search_is_first_cached_search [symmetric] calls_after_search)

theorem search_first_provider_results_witness:
  "fst (cached_search ''x'' (search_bing env_bing) w0) = Inr [result_T] \<and> [result_T] \<noteq> []
   \<and> fst (search env_bing ''x'' w0) = Inr [result_T]
   \<and> google_calls (snd (search env_bing ''x'' w0)) = google_calls w0"
proof -
  have h: "fst (cached_search ''x'' (search_bing env_bing) w0) = Inr [result_T]"
    by (simp add: cached_search_bing_miss [OF cache_get_w0] search_bing_env_bing)
  show ?thesis
    using h search_first_provider_results [OF h] by simp
qed

subsection \<open>Cache hits\<close>

text \<open>
  C5. For every query whose key is in the cache and unexpired, \<open>search\<close> returns the
  cached list and leaves the state as it was, whatever the environment: no provider is
  called, and nothing is raised even where every provider call would fail.
\<close>

theorem search_cache_hit:
  assumes "cache w q = Some (rs, expire_time)" and "now w < expire_time"
  shows "search env q w = (Inr rs, w)"
proof -
  have "cache_get (cache w) (now w) q = Some rs"
    using assms by (simp add: cache_get_def)
  then show ?thesis by (rule search_hit)
qed

theorem search_cache_hit_witness:
  "cache (w_cached 50) ''y'' = Some ([result_C], 100) \<and> now (w_cached 50) < 100
   \<and> search env_down ''y'' (w_cached 50) = (Inr [result_C], w_cached 50)"
proof -
  have c: "cache (w_cached 50) ''y'' = Some ([result_C], 100)"
    by (simp add: w_cached_def)
  have t: "now (w_cached 50) < 100"
    by (simp add: w_cached_def)
  show ?thesis
    using c t search_cache_hit [OF c t, of env_down] by simp
qed

subsection \<open>Cache misses\<close>

text \<open>
  C6. For every query that is not in the cache, or whose entry has expired,
  \<open>cached_search\<close> calls the search function exactly once (the state it continues from
  is the one that single call produced; for the two adapters their call counter goes up
  by one) and stores the returned list under the query with an expiry time seven days
  (604800 seconds) after the call, also when the list is empty.
\<close>

theorem cached_search_miss_stores:
  assumes "\<not> cache_contains (cache w) (now w) q"
  shows "(f q w = (Inr rs, w') \<longrightarrow>
            cached_search q f w = (Inr rs, w'\<lparr>cache := (cache w')(q \<mapsto> (rs, now w' + 604800))\<rparr>))
       \<and> (fst (search_bing env q w) = Inr rs \<longrightarrow>
            cached_search q (search_bing env) w =
              (Inr rs, w\<lparr>bing_calls := bing_calls w + 1,
                          cache := (cache w)(q \<mapsto> (rs, now w + 604800))\<rparr>))
       \<and> (fst (search_google env q w) = Inr rs \<longrightarrow>
            cached_search q (search_google env) w =
              (Inr rs, w\<lparr>google_calls := google_calls w + 1,
                          cache := (cache w)(q \<mapsto> (rs, now w + 604800))\<rparr>))"
proof -
  have miss: "cache_get (cache w) (now w) q = None"
    using assms by (simp add: cache_contains_def split: option.splits)
  have sg: "search_google env q w = (fst (search_google env q w), w\<lparr>google_calls := Suc (google_calls w)\<rparr>)"
    using snd_search_google [of env q w] by (simp add: prod_eq_iff)
  have "f q w = (Inr rs, w') \<longrightarrow>
          cached_search q f w = (Inr rs, w'\<lparr>cache := (cache w')(q \<mapsto> (rs, now w' + 604800))\<rparr>)"
    by (simp add: cached_search_miss [OF miss] cache_set_def one_week_seconds)
  moreover have "fst (search_bing env q w) = Inr rs \<longrightarrow>
          cached_search q (search_bing env) w =
            (Inr rs, w\<lparr>bing_calls := bing_calls w + 1,
                        cache := (cache w)(q \<mapsto> (rs, now w + 604800))\<rparr>)"
    by (simp add: cached_search_bing_miss [OF miss] cache_set_def one_week_seconds)
  moreover have "fst (search_google env q w) = Inr rs \<longrightarrow>
          cached_search q (search_google env) w =
            (Inr rs, w\<lparr>google_calls := google_calls w + 1,
                        cache := (cache w)(q \<mapsto> (rs, now w + 604800))\<rparr>)"
  proof
    assume "fst (search_google env q w) = Inr rs"
    with sg have "search_google env q w = (Inr rs, w\<lparr>google_calls := Suc (google_calls w)\<rparr>)"
      by simp
    then show "cached_search q (search_google env) w =
            (Inr rs, w\<lparr>google_calls := google_calls w + 1,
                        cache := (cache w)(q \<mapsto> (rs, now w + 604800))\<rparr>)"
      by (simp add: cached_search_miss [OF miss] cache_set_def one_week_seconds)
  qed
  ultimately show ?thesis by blast
qed

theorem cached_search_miss_stores_witness:
  "\<not> cache_contains (cache w0) (now w0) ''x''
   \<and> search_bing env_fallback ''x'' w0 = (Inr [], w0\<lparr>bing_calls := 1\<rparr>)
   \<and> cached_search ''x'' (search_bing env_fallback) w0 =
       (Inr [], w0\<lparr>bing_calls := 1, cache := (cache w0)(''x'' \<mapsto> ([], now w0 + 604800))\<rparr>)
   \<and> fst (search_google env_fallback ''x'' w0) = Inr [result_T]
   \<and> cached_search ''x'' (search_google env_fallback) w0 =
       (Inr [result_T],
        w0\<lparr>google_calls := google_calls w0 + 1,
            cache := (cache w0)(''x'' \<mapsto> ([result_T], now w0 + 604800))\<rparr>)"
proof -
  have m: "\<not> cache_contains (cache w0) (now w0) ''x''"
    by (simp add: cache_contains_def cache_get_w0)
  have b: "search_bing env_fallback ''x'' w0 = (Inr [], w0\<lparr>bing_calls := 1\<rparr>)"
    using search_bing_env_fallback [of "''x''" w0] snd_search_bing [of env_fallback "''x''" w0]
    by (simp add: prod_eq_iff w0_def)
  have g: "fst (search_google env_fallback ''x'' w0) = Inr [result_T]"
    by (rule search_google_env_fallback)
  show ?thesis
    using m b g
      cached_search_miss_stores [OF m, of "search_bing env_fallback" "[]" "w0\<lparr>bing_calls := 1\<rparr>"
        env_fallback]
      cached_search_miss_stores [OF m, of "search_bing env_fallback" "[result_T]" "w0\<lparr>bing_calls := 1\<rparr>"
        env_fallback]
    by simp
qed

subsection \<open>Searching twice\<close>

text \<open>
  C7, as amended. For every query on which a first \<open>search\<close> returns a result list,
  a second \<open>search\<close> for the same query at any time at which the entry for the query
  is still unexpired issues no provider call and returns the same list, so the two
  calls together issue at most one provider call.
\<close>

theorem search_twice_within_ttl:
  assumes "fst (search env q w) = Inr rs"
    and "cache_contains (cache (snd (search env q w))) t q"
  shows "search env q (snd (search env q w)\<lparr>now := t\<rparr>) = (Inr rs, snd (search env q w)\<lparr>now := t\<rparr>)
       \<and> bing_calls (snd (search env q w)) + google_calls (snd (search env q w))
           \<le> bing_calls w + google_calls w + 1"
proof -
  let ?w1 = "snd (search env q w)"
  obtain expire_time where e: "cache ?w1 q = Some (rs, expire_time)"
    using entry_after_search [OF assms(1)] by (auto simp: cache_get_Some_iff)
  have "t < expire_time"
    using assms(2) e by (auto simp: cache_contains_iff cache_get_Some_iff)
  then have "cache_get (cache (?w1\<lparr>now := t\<rparr>)) (now (?w1\<lparr>now := t\<rparr>)) q = Some rs"
    using e by (simp add: cache_get_def)
  then have "search env q (?w1\<lparr>now := t\<rparr>) = (Inr rs, ?w1\<lparr>now := t\<rparr>)"
    by (rule search_hit)
  then show ?thesis
    by (simp add: calls_after_search)
qed

theorem search_twice_within_ttl_witness:
  "fst (search env_fallback ''x'' w0) = Inr []
   \<and> cache_contains (cache (snd (search env_fallback ''x'' w0))) 604799 ''x''
   \<and> search env_fallback ''x'' (snd (search env_fallback ''x'' w0)\<lparr>now := 604799\<rparr>)
       = (Inr [], snd (search env_fallback ''x'' w0)\<lparr>now := 604799\<rparr>)
   \<and> bing_calls (snd (search env_fallback ''x'' w0)) + google_calls (snd (search env_fallback ''x'' w0))
       \<le> bing_calls w0 + google_calls w0 + 1"
proof -
  have r: "fst (search env_fallback ''x'' w0) = Inr []"
    by (simp add: search_miss [OF cache_get_w0] search_bing_env_fallback)
  have c: "cache_contains (cache (snd (search env_fallback ''x'' w0))) 604799 ''x''"
    by (simp add: search_miss [OF cache_get_w0] search_bing_env_fallback)
       (simp add: cache_contains_def cache_get_def cache_set_def one_week_seconds w0_def)
  show ?thesis
    using r c search_twice_within_ttl [OF r c] by simp
qed

text \<open>
  C7, the claim as stated fails: when the first call raises (here \<open>KeyError\<close>, from an
  item without its title) nothing is stored, and a second call at the same moment
  calls the provider again: two provider calls for one query.
\<close>

theorem search_twice_after_exception:
  "fst (search env_malformed ''x'' w0) = Inl (KeyError ''name'')
   \<and> bing_calls w0 = 0
   \<and> bing_calls (snd (search env_malformed ''x'' w0)) = 1
   \<and> bing_calls (snd (search env_malformed ''x'' (snd (search env_malformed ''x'' w0)))) = 2"
proof -
  let ?w1 = "w0\<lparr>bing_calls := Suc (bing_calls w0)\<rparr>"
  have first: "search env_malformed ''x'' w0 = (Inl (KeyError ''name''), ?w1)"
    by (simp add: search_miss [OF cache_get_w0] search_bing_env_malformed)
  have "cache_get (cache ?w1) (now ?w1) ''x'' = None"
    by (simp add: w0_def cache_get_def)
  then have "search env_malformed ''x'' ?w1 = (Inl (KeyError ''name''), ?w1\<lparr>bing_calls := Suc (bing_calls ?w1)\<rparr>)"
    by (simp add: search_miss search_bing_env_malformed)
  then show ?thesis
    using first by (simp add: w0_def)
qed

subsection \<open>Expired entries\<close>

text \<open>
  C8. For every query whose cache entry has reached its expiry time, a cache lookup
  finds nothing (and the membership test is false; neither raises), and \<open>search\<close> issues
  a fresh call of the first provider and returns what that call returns.
\<close>

theorem expired_entry_is_miss:
  assumes "cache w q = Some (v, expire_time)" and "expire_time \<le> now w"
  shows "cache_get (cache w) (now w) q = None
       \<and> \<not> cache_contains (cache w) (now w) q
       \<and> bing_calls (snd (search env q w)) = bing_calls w + 1
       \<and> fst (search env q w) = fst (search_bing env q w)"
proof -
  have miss: "cache_get (cache w) (now w) q = None"
    using assms by (simp add: cache_get_def)
  then have "\<not> cache_contains (cache w) (now w) q"
    by (simp add: cache_contains_def)
  moreover have "fst (search env q w) = fst (search_bing env q w)"
    by (simp add: search_miss [OF miss] split: sum.splits)
  ultimately show ?thesis
    using miss by (simp add: calls_after_search)
qed

theorem expired_entry_is_miss_witness:
  "cache (w_cached 100) ''y'' = Some ([result_C], 100) \<and> 100 \<le> now (w_cached 100)
   \<and> cache_get (cache (w_cached 100)) (now (w_cached 100)) ''y'' = None
   \<and> \<not> cache_contains (cache (w_cached 100)) (now (w_cached 100)) ''y''
   \<and> bing_calls (snd (search env_bing ''y'' (w_cached 100))) = bing_calls (w_cached 100) + 1
   \<and> fst (search env_bing ''y'' (w_cached 100)) = Inr [result_T]"
proof -
  have c: "cache (w_cached 100) ''y'' = Some ([result_C], 100)"
    by (simp add: w_cached_def)
  have t: "100 \<le> now (w_cached 100)"
    by (simp add: w_cached_def)
  show ?thesis
    using c t expired_entry_is_miss [OF c t, of env_bing]
    by (simp add: search_bing_env_bing)
qed

subsection \<open>use does not raise\<close>

text \<open>
  C9. For every question and every behaviour of the providers and of the completion
  service, \<open>use\<close> returns a string and raises nothing; and when the completion call
  fails, the string is "Unable to generate an answer at this time.".
\<close>

theorem use_never_raises:
  assumes "fst (search env question w) = Inr rs"
    and "llm_create env (llm_calls (snd (search env question w))) (messages env rs question) = Inl e"
  shows "fst (use env (question # rest) w) = Inr ''Unable to generate an answer at this time.''
       \<and> (\<exists>answer. fst (use env' args w') = Inr answer)"
proof -
  obtain w1 where s: "search env question w = (Inr rs, w1)"
    using assms(1) by (cases "search env question w") simp
  then have "llm_create env (llm_calls w1) (messages env rs question) = Inl e"
    using assms(2) by simp
  then have "fst (use env (question # rest) w) = Inr ''Unable to generate an answer at this time.''"
    using s by (simp add: use_def use_try_def)
  moreover have "\<exists>answer. fst (use env' args w') = Inr answer"
    by (simp add: use_def split: list.splits prod.splits sum.splits)
  ultimately show ?thesis by simp
qed

theorem use_never_raises_witness:
  "fst (search env_down ''q'' w0) = Inr []
   \<and> llm_create env_down (llm_calls (snd (search env_down ''q'' w0))) (messages env_down [] ''q'')
       = Inl APIError
   \<and> fst (use env_down [''q''] w0) = Inr ''Unable to generate an answer at this time.''
   \<and> fst (use env_malformed [''q''] w0) = Inr ''Unable to generate an answer at this time.''"
proof -
  have s: "fst (search env_down ''q'' w0) = Inr []"
    by (simp add: search_miss [OF cache_get_w0] search_bing_env_down)
  have l: "llm_create env_down (llm_calls (snd (search env_down ''q'' w0))) (messages env_down [] ''q'')
       = Inl APIError"
    by (simp add: env_down_def)
  have m: "fst (use env_malformed [''q''] w0) = Inr ''Unable to generate an answer at this time.''"
    by (simp add: use_def use_try_def search_miss [OF cache_get_w0] search_bing_env_malformed)
  show ?thesis
    using s l m use_never_raises [OF s l, of "[]"] by simp
qed

subsection \<open>The entry a completed search leaves\<close>

text \<open>
  C10. After any call of \<open>search\<close> that returns, the cache holds an unexpired entry
  under the raw query whose value is the returned list. In every later state that still
  holds that entry unexpired, a cached search with any search function (the key does
  not depend on the provider) and \<open>search\<close> itself, in any environment, return that
  list and leave the state as it was, so no provider is called; this holds for the
  empty list too.
\<close>

theorem search_leaves_entry:
  assumes "fst (search env q w) = Inr rs"
    and "cache w2 q = cache (snd (search env q w)) q"
    and "cache_contains (cache w2) (now w2) q"
  shows "cache_get (cache (snd (search env q w))) (now w) q = Some rs
       \<and> cached_search q f w2 = (Inr rs, w2)
       \<and> search env' q w2 = (Inr rs, w2)"
proof -
  have stored: "cache_get (cache (snd (search env q w))) (now w) q = Some rs"
    by (rule entry_after_search [OF assms(1)])
  then obtain expire_time where "cache w2 q = Some (rs, expire_time)"
    using assms(2) by (auto simp: cache_get_Some_iff)
  then have hit: "cache_get (cache w2) (now w2) q = Some rs"
    using assms(3) by (auto simp: cache_contains_iff cache_get_Some_iff)
  show ?thesis
    using stored cached_search_hit [OF hit] search_hit [OF hit] by simp
qed

theorem search_leaves_entry_witness:
  "fst (search env_down ''x'' w0) = Inr []
   \<and> cache (snd (search env_down ''x'' w0)\<lparr>now := 604799\<rparr>) ''x'' = cache (snd (search env_down ''x'' w0)) ''x''
   \<and> cache_contains (cache (snd (search env_down ''x'' w0)\<lparr>now := 604799\<rparr>))
        (now (snd (search env_down ''x'' w0)\<lparr>now := 604799\<rparr>)) ''x''
   \<and> cache_get (cache (snd (search env_down ''x'' w0))) (now w0) ''x'' = Some []
   \<and> cached_search ''x'' (search_google env_bing) (snd (search env_down ''x'' w0)\<lparr>now := 604799\<rparr>)
       = (Inr [], snd (search env_down ''x'' w0)\<lparr>now := 604799\<rparr>)
   \<and> search env_bing ''x'' (snd (search env_down ''x'' w0)\<lparr>now := 604799\<rparr>)
       = (Inr [], snd (search env_down ''x'' w0)\<lparr>now := 604799\<rparr>)"
proof -
  let ?w2 = "snd (search env_down ''x'' w0)\<lparr>now := 604799\<rparr>"
  have r: "fst (search env_down ''x'' w0) = Inr []"
    by (simp add: search_miss [OF cache_get_w0] search_bing_env_down)
  have k: "cache ?w2 ''x'' = cache (snd (search env_down ''x'' w0)) ''x''"
    by simp
  have c: "cache_contains (cache ?w2) (now ?w2) ''x''"
    by (simp add: search_miss [OF cache_get_w0] search_bing_env_down)
       (simp add: cache_contains_def cache_get_def cache_set_def one_week_seconds w0_def)
  show ?thesis
    using r k c search_leaves_entry [OF r k c, of "search_google env_bing" env_bing]
    by simp
qed

end
